theory Spec2Isabelle
  imports Main
begin

section \<open>Data model of backend/main.py\<close>

text \<open>
  The service is a FastAPI application with two module-level globals,
  \<open>vector_db_instance\<close> and \<open>pdf_loaded\<close>, and seven routes. Everything else is a call
  into a library or a remote service. The model keeps the globals in a record that every
  handler takes and returns, keeps the temporary directory and the sequence of library
  calls in a second record, and takes the behaviour of the libraries as a parameter.
\<close>

text \<open>
  Python exceptions. \<open>HTTPException\<close> is FastAPI's; it is a subclass of \<open>Exception\<close>,
  so a handler's \<open>except Exception\<close> catches it too. \<open>Error\<close> stands for every other
  exception, carrying the text of \<open>str(e)\<close>.
\<close>

datatype exn = HTTPException (status_code: nat) (detail: string) | Error string

record ChatMessage =
  role :: string
  content :: string

text \<open>\<open>history: Optional[List[ChatMessage]] = []\<close>: a request body may carry \<open>null\<close>.\<close>

record GeneralChatRequest =
  message :: string
  history :: "ChatMessage list option"

record PDFChatRequest =
  question :: string

record ChatResponse =
  response :: string
  sources :: "string list option"

text \<open>A LangChain document: text and a metadata dictionary.\<close>

record Document =
  page_content :: string
  metadata :: "(string \<times> string) list"

record UploadFile =
  filename :: string
  file_obj :: string

text \<open>
  What the retrieval chain returns with \<open>return_source_documents=True\<close>: the keys
  \<open>'result'\<close> and \<open>'source_documents'\<close> of the result dictionary.
\<close>

record rag_result =
  result :: string
  source_documents :: "Document list"

text \<open>The two globals. The type \<open>'v\<close> is the vector store object, opaque to the program.\<close>

record 'v globals =
  vector_db_instance :: "'v option"
  pdf_loaded :: bool

definition initial_globals :: "'v globals" where
  "initial_globals = \<lparr>vector_db_instance = None, pdf_loaded = False\<rparr>"

text \<open>Calls that leave the program, in the order they are made.\<close>

datatype 'v call =
    Call_NamedTemporaryFile
  | Call_copyfileobj string string
  | Call_PyPDFLoader_load string
  | Call_split_documents "Document list"
  | Call_HuggingFaceEmbeddings string
  | Call_FAISS_from_documents "Document list"
  | Call_os_unlink string
  | Call_Groq_create "(string \<times> string) list list" string
  | Call_RetrievalQA 'v string

record 'v world =
  tmp_files :: "string set"
  calls :: "'v call list"

definition log :: "'v call \<Rightarrow> 'v world \<Rightarrow> 'v world" where
  "log c w = w\<lparr>calls := calls w @ [c]\<rparr>"

text \<open>
  The libraries and services, as seen during one request. A result \<open>Inl m\<close> or
  \<open>Some m\<close> is an exception raised by the call, with message \<open>m\<close>.
  \<open>str_HTTPException\<close> is \<open>str()\<close> of an \<open>HTTPException\<close>, which the framework defines.
\<close>

record 'v env =
  GROQ_API_KEY :: "string option"
  str_HTTPException :: "nat \<Rightarrow> string \<Rightarrow> string"
  Groq :: "string option \<Rightarrow> string option"
  chat_completions_create :: "(string \<times> string) list list \<Rightarrow> string \<Rightarrow> string + string list"
  NamedTemporaryFile :: "string set \<Rightarrow> string + string"
  copyfileobj :: "string \<Rightarrow> string \<Rightarrow> string option"
  PyPDFLoader_load :: "string \<Rightarrow> string + Document list"
  split_documents :: "nat \<Rightarrow> nat \<Rightarrow> Document list \<Rightarrow> string + Document list"
  HuggingFaceEmbeddings :: "string \<Rightarrow> string option"
  FAISS_from_documents :: "Document list \<Rightarrow> string \<Rightarrow> string + 'v"
  ChatGroq :: "string option \<Rightarrow> string \<Rightarrow> string option"
  RetrievalQA :: "'v \<Rightarrow> string \<Rightarrow> string + rag_result"
  os_unlink :: "string \<Rightarrow> string option"

definition str_exn :: "'v env \<Rightarrow> exn \<Rightarrow> string" where
  "str_exn env e = (case e of HTTPException c d \<Rightarrow> str_HTTPException env c d | Error m \<Rightarrow> m)"

text \<open>Response bodies of the routes.\<close>

datatype body =
    Message string
  | Health string
  | Status string string bool
  | Chat ChatResponse

section \<open>Helper functions\<close>

text \<open>The loop of \<open>llm_answer\<close> that turns the history into a list of dictionaries.\<close>

fun convert_history :: "ChatMessage list \<Rightarrow> (string \<times> string) list list \<Rightarrow> (string \<times> string) list list" where
  "convert_history [] messages = messages"
| "convert_history (msg # rest) messages =
     convert_history rest (messages @ [[(''role'', role msg), (''content'', content msg)]])"

definition llm_model :: string where
  "llm_model = ''llama-3.3-70b-versatile''"

definition llm_answer :: "'v env \<Rightarrow> ChatMessage list \<Rightarrow> 'v world \<Rightarrow> (exn + string) \<times> 'v world" where
  "llm_answer env hist w =
     (case Groq env (GROQ_API_KEY env) of
        Some e \<Rightarrow> (Inl (HTTPException 500 (''Error with Groq API: '' @ e)), w)
      | None \<Rightarrow>
          (let messages = convert_history hist [];
               w1 = log (Call_Groq_create messages llm_model) w
           in case chat_completions_create env messages llm_model of
                Inl e \<Rightarrow> (Inl (HTTPException 500 (''Error with Groq API: '' @ e)), w1)
              | Inr choices \<Rightarrow>
                  (case choices of
                     [] \<Rightarrow> (Inl (HTTPException 500
                              (''Error with Groq API: list index out of range'')), w1)
                   | c # _ \<Rightarrow> (Inr c, w1))))"

definition pdf_loader :: "'v env \<Rightarrow> string \<Rightarrow> 'v world \<Rightarrow> (exn + Document list) \<times> 'v world" where
  "pdf_loader env pdf_file w =
     (let w1 = log (Call_PyPDFLoader_load pdf_file) w
      in case PyPDFLoader_load env pdf_file of
           Inl e \<Rightarrow> (Inl (Error e), w1)
         | Inr documents \<Rightarrow> (Inr documents, w1))"

definition split_document :: "'v env \<Rightarrow> Document list \<Rightarrow> 'v world \<Rightarrow> (exn + Document list) \<times> 'v world" where
  "split_document env documents w =
     (let w1 = log (Call_split_documents documents) w
      in case split_documents env 500 30 documents of
           Inl e \<Rightarrow> (Inl (Error e), w1)
         | Inr chunks \<Rightarrow> (Inr chunks, w1))"

definition embedding_model_name :: string where
  "embedding_model_name = ''all-MiniLM-L6-v2''"

definition create_vector_db :: "'v env \<Rightarrow> Document list \<Rightarrow> 'v world \<Rightarrow> (exn + 'v) \<times> 'v world" where
  "create_vector_db env chunks w =
     (let w1 = log (Call_HuggingFaceEmbeddings embedding_model_name) w
      in case HuggingFaceEmbeddings env embedding_model_name of
           Some e \<Rightarrow> (Inl (Error e), w1)
         | None \<Rightarrow>
             (let w2 = log (Call_FAISS_from_documents chunks) w1
              in case FAISS_from_documents env chunks embedding_model_name of
                   Inl e \<Rightarrow> (Inl (Error e), w2)
                 | Inr vdb \<Rightarrow> (Inr vdb, w2)))"

definition rag_query :: "'v env \<Rightarrow> 'v \<Rightarrow> string \<Rightarrow> 'v world \<Rightarrow> (exn + rag_result) \<times> 'v world" where
  "rag_query env vdb q w =
     (case ChatGroq env (GROQ_API_KEY env) llm_model of
        Some e \<Rightarrow> (Inl (Error e), w)
      | None \<Rightarrow>
          (let w1 = log (Call_RetrievalQA vdb q) w
           in case RetrievalQA env vdb q of
                Inl e \<Rightarrow> (Inl (Error e), w1)
              | Inr res \<Rightarrow> (Inr res, w1)))"

section \<open>Endpoints\<close>

definition root :: "'v globals \<times> 'v world \<Rightarrow> (exn + body) \<times> 'v globals \<times> 'v world" where
  "root gw = (Inr (Message ''Chatbot API is running''), gw)"

definition get_status :: "'v globals \<times> 'v world \<Rightarrow> (exn + body) \<times> 'v globals \<times> 'v world" where
  "get_status gw =
     (Inr (Status ''Available''
             (if pdf_loaded (fst gw) then ''Available'' else ''No PDF loaded'')
             (pdf_loaded (fst gw))), gw)"

definition health_check :: "'v globals \<times> 'v world \<Rightarrow> (exn + body) \<times> 'v globals \<times> 'v world" where
  "health_check gw = (Inr (Health ''healthy''), gw)"

text \<open>
  \<open>general_chat\<close>: the body of the \<open>try\<close>, then the \<open>except Exception\<close> that turns
  every exception into a 500. \<open>request.history.copy()\<close> raises on \<open>None\<close>.
\<close>

definition general_chat_try :: "'v env \<Rightarrow> GeneralChatRequest \<Rightarrow> 'v world \<Rightarrow> (exn + body) \<times> 'v world" where
  "general_chat_try env request w =
     (case history request of
        None \<Rightarrow> (Inl (Error (CHR 0x27 # ''NoneType'' @ CHR 0x27 # '' object has no attribute ''
                              @ CHR 0x27 # ''copy'' @ [CHR 0x27])), w)
      | Some h \<Rightarrow>
          (let hist = h @ [\<lparr>role = ''user'', content = message request\<rparr>]
           in case llm_answer env hist w of
                (Inl e, w1) \<Rightarrow> (Inl e, w1)
              | (Inr r, w1) \<Rightarrow> (Inr (Chat \<lparr>response = r, sources = None\<rparr>), w1)))"

definition general_chat :: "'v env \<Rightarrow> GeneralChatRequest \<Rightarrow> 'v globals \<times> 'v world \<Rightarrow> (exn + body) \<times> 'v globals \<times> 'v world" where
  "general_chat env request gw =
     (case general_chat_try env request (snd gw) of
        (Inl e, w1) \<Rightarrow>
          (Inl (HTTPException 500 (''Error processing general chat: '' @ str_exn env e)), fst gw, w1)
      | (Inr b, w1) \<Rightarrow> (Inr b, fst gw, w1))"

definition endswith :: "string \<Rightarrow> string \<Rightarrow> bool" where
  "endswith s suf = (length suf \<le> length s \<and> drop (length s - length suf) s = suf)"

text \<open>
  \<open>upload_pdf\<close>: the body of the \<open>try\<close>. The two globals are assigned after
  \<open>create_vector_db\<close> has returned and before \<open>os.unlink\<close> is called. The temporary file
  is made with \<open>delete=False\<close>, so leaving the \<open>with\<close> block keeps it.
\<close>

definition upload_pdf_try :: "'v env \<Rightarrow> UploadFile \<Rightarrow> 'v globals \<times> 'v world \<Rightarrow> (exn + body) \<times> 'v globals \<times> 'v world" where
  "upload_pdf_try env f gw =
     (let g = fst gw; w = snd gw in
      if \<not> endswith (filename f) ''.pdf''
      then (Inl (HTTPException 400 ''Only PDF files are allowed''), g, w)
      else
        let w1 = log Call_NamedTemporaryFile w in
        case NamedTemporaryFile env (tmp_files w) of
          Inl e \<Rightarrow> (Inl (Error e), g, w1)
        | Inr tmp_file_path \<Rightarrow>
            let w2 = log (Call_copyfileobj (file_obj f) tmp_file_path)
                       (w1\<lparr>tmp_files := insert tmp_file_path (tmp_files w1)\<rparr>) in
            case copyfileobj env (file_obj f) tmp_file_path of
              Some e \<Rightarrow> (Inl (Error e), g, w2)
            | None \<Rightarrow>
                (case pdf_loader env tmp_file_path w2 of
                   (Inl e, w3) \<Rightarrow> (Inl e, g, w3)
                 | (Inr documents, w3) \<Rightarrow>
                     (case split_document env documents w3 of
                        (Inl e, w4) \<Rightarrow> (Inl e, g, w4)
                      | (Inr chunks, w4) \<Rightarrow>
                          (case create_vector_db env chunks w4 of
                             (Inl e, w5) \<Rightarrow> (Inl e, g, w5)
                           | (Inr vdb, w5) \<Rightarrow>
                               let g1 = g\<lparr>vector_db_instance := Some vdb\<rparr>;
                                   g2 = g1\<lparr>pdf_loaded := True\<rparr>;
                                   w6 = log (Call_os_unlink tmp_file_path) w5 in
                               case os_unlink env tmp_file_path of
                                 Some e \<Rightarrow> (Inl (Error e), g2, w6)
                               | None \<Rightarrow>
                                   (Inr (Message (''PDF '' @ CHR 0x27 # filename f @ CHR 0x27 #
                                            '' uploaded and processed successfully'')),
                                    g2, w6\<lparr>tmp_files := tmp_files w6 - {tmp_file_path}\<rparr>)))))"

text \<open>The only handler of \<open>upload_pdf\<close> is \<open>except Exception\<close>.\<close>

definition upload_pdf :: "'v env \<Rightarrow> UploadFile \<Rightarrow> 'v globals \<times> 'v world \<Rightarrow> (exn + body) \<times> 'v globals \<times> 'v world" where
  "upload_pdf env f gw =
     (case upload_pdf_try env f gw of
        (Inl e, gw1) \<Rightarrow> (Inl (HTTPException 500 (''Error processing PDF: '' @ str_exn env e)), gw1)
      | (Inr b, gw1) \<Rightarrow> (Inr b, gw1))"

text \<open>The loop of \<open>pdf_chat\<close> that collects the sources.\<close>

definition source_of :: "Document \<Rightarrow> string" where
  "source_of doc = (case map_of (metadata doc) ''source'' of None \<Rightarrow> ''Unknown'' | Some s \<Rightarrow> s)"

fun extract_sources :: "Document list \<Rightarrow> string list \<Rightarrow> string list" where
  "extract_sources [] srcs = srcs"
| "extract_sources (doc # docs) srcs =
     (let source = source_of doc
      in if source \<notin> set srcs then extract_sources docs (srcs @ [source])
         else extract_sources docs srcs)"

definition no_pdf_detail :: string where
  "no_pdf_detail = ''No PDF loaded. Please upload a PDF first using /upload-pdf endpoint''"

definition pdf_chat_try :: "'v env \<Rightarrow> PDFChatRequest \<Rightarrow> 'v globals \<times> 'v world \<Rightarrow> (exn + body) \<times> 'v world" where
  "pdf_chat_try env request gw =
     (let g = fst gw; w = snd gw in
      if \<not> pdf_loaded g \<or> vector_db_instance g = None
      then (Inl (HTTPException 400 no_pdf_detail), w)
      else
        case rag_query env (the (vector_db_instance g)) (question request) w of
          (Inl e, w1) \<Rightarrow> (Inl e, w1)
        | (Inr results, w1) \<Rightarrow>
            (Inr (Chat \<lparr>response = result results,
                        sources = Some (extract_sources (source_documents results) [])\<rparr>), w1))"

text \<open>\<open>pdf_chat\<close> has \<open>except HTTPException: raise\<close> before \<open>except Exception\<close>.\<close>

definition pdf_chat :: "'v env \<Rightarrow> PDFChatRequest \<Rightarrow> 'v globals \<times> 'v world \<Rightarrow> (exn + body) \<times> 'v globals \<times> 'v world" where
  "pdf_chat env request gw =
     (case pdf_chat_try env request gw of
        (Inl (HTTPException c d), w1) \<Rightarrow> (Inl (HTTPException c d), fst gw, w1)
      | (Inl (Error m), w1) \<Rightarrow>
          (Inl (HTTPException 500 (''Error processing PDF chat: '' @ m)), fst gw, w1)
      | (Inr b, w1) \<Rightarrow> (Inr b, fst gw, w1))"

definition clear_pdf :: "'v globals \<times> 'v world \<Rightarrow> (exn + body) \<times> 'v globals \<times> 'v world" where
  "clear_pdf gw =
     (let g1 = (fst gw)\<lparr>vector_db_instance := None\<rparr>;
          g2 = g1\<lparr>pdf_loaded := False\<rparr>
      in (Inr (Message ''PDF cleared successfully''), g2, snd gw))"

section \<open>The router\<close>

datatype request =
    GET_root
  | GET_status
  | GET_health
  | POST_chat_general GeneralChatRequest
  | POST_upload_pdf UploadFile
  | POST_chat_pdf PDFChatRequest
  | DELETE_pdf

fun handle :: "'v env \<Rightarrow> request \<Rightarrow> 'v globals \<times> 'v world \<Rightarrow> (exn + body) \<times> 'v globals \<times> 'v world" where
  "handle env GET_root gw = root gw"
| "handle env GET_status gw = get_status gw"
| "handle env GET_health gw = health_check gw"
| "handle env (POST_chat_general r) gw = general_chat env r gw"
| "handle env (POST_upload_pdf f) gw = upload_pdf env f gw"
| "handle env (POST_chat_pdf r) gw = pdf_chat env r gw"
| "handle env DELETE_pdf gw = clear_pdf gw"

text \<open>
  A run of the service: requests handled one after the other, each with the behaviour of
  the libraries during that request. The responses are collected in order.
\<close>

fun run :: "('v env \<times> request) list \<Rightarrow> 'v globals \<times> 'v world \<Rightarrow> (exn + body) list \<times> 'v globals \<times> 'v world" where
  "run [] gw = ([], gw)"
| "run ((env, req) # rest) gw =
     (case handle env req gw of
        (r, gw1) \<Rightarrow> (case run rest gw1 of (rs, gw2) \<Rightarrow> (r # rs, gw2)))"

section \<open>Specification-side definitions\<close>

text \<open>
  The list of sources as the specification words it: every identifier once, in the order
  of first mention. The first element is kept and its later occurrences are dropped.
\<close>

primrec first_seen :: "string list \<Rightarrow> string list" where
  "first_seen [] = []"
| "first_seen (x # xs) = x # removeAll x (first_seen xs)"





section \<open>An example environment\<close>

text \<open>
  Libraries that all succeed: the loader yields one page whose source is the file it was
  given, the splitter returns the pages as chunks, the vector store is the list of its
  chunks, and retrieval returns the first four of them.
\<close>

definition example_env :: "Document list env" where
  "example_env =
     \<lparr>GROQ_API_KEY = Some ''gsk_example'',
      str_HTTPException = (\<lambda>c d. d),
      Groq = (\<lambda>key. None),
      chat_completions_create = (\<lambda>messages model. Inr [''Hello!'']),
      NamedTemporaryFile = (\<lambda>existing. Inr ''/tmp/tmp1.pdf''),
      copyfileobj = (\<lambda>src dst. None),
      PyPDFLoader_load = (\<lambda>path. Inr [\<lparr>page_content = ''page one'', metadata = [(''source'', path)]\<rparr>]),
      split_documents = (\<lambda>chunk_size chunk_overlap documents. Inr documents),
      HuggingFaceEmbeddings = (\<lambda>model_name. None),
      FAISS_from_documents = (\<lambda>chunks model_name. Inr chunks),
      ChatGroq = (\<lambda>key model. None),
      RetrievalQA = (\<lambda>vdb q. Inr \<lparr>result = ''answer'', source_documents = take 4 vdb\<rparr>),
      os_unlink = (\<lambda>path. None)\<rparr>"

definition example_world :: "Document list world" where
  "example_world = \<lparr>tmp_files = {}, calls = []\<rparr>"

text \<open>An index of four chunks: three from \<open>a.pdf\<close> and one without a source.\<close>

definition example_index :: "Document list" where
  "example_index =
     [\<lparr>page_content = ''one'', metadata = [(''source'', ''a.pdf'')]\<rparr>,
      \<lparr>page_content = ''two'', metadata = [(''source'', ''a.pdf'')]\<rparr>,
      \<lparr>page_content = ''three'', metadata = []\<rparr>,
      \<lparr>page_content = ''four'', metadata = [(''source'', ''a.pdf'')]\<rparr>]"

definition example_loaded :: "Document list globals" where
  "example_loaded = \<lparr>vector_db_instance = Some example_index, pdf_loaded = True\<rparr>"

text \<open>
  Two variants: in the first the final \<open>os.unlink\<close> raises (as it does on Windows while
  the file is still open), in the second the loader rejects the file.
\<close>

definition unlink_fails_env :: "Document list env" where
  "unlink_fails_env = example_env\<lparr>os_unlink := (\<lambda>path. Some ''[WinError 32] file in use'')\<rparr>"


definition example_file :: UploadFile where
  "example_file = \<lparr>filename = ''b.pdf'', file_obj = ''%PDF-1.4''\<rparr>"

section \<open>Uploading a file that is not a PDF\<close>

text \<open>
  Claim C1. An upload of \<open>notes.txt\<close> raises the 400 inside the \<open>try\<close> block, and the
  \<open>except Exception\<close> of \<open>upload_pdf\<close> catches it and raises a 500 in its place. The
  globals, the temporary directory and the list of calls are unchanged.
\<close>

theorem upload_pdf_notes_txt:
  "upload_pdf env \<lparr>filename = ''notes.txt'', file_obj = d\<rparr> (g, w) =
     (Inl (HTTPException 500 (''Error processing PDF: '' @
            str_HTTPException env 400 ''Only PDF files are allowed'')), g, w)"
  by (simp add: upload_pdf_def upload_pdf_try_def endswith_def str_exn_def)

section \<open>Clearing the document\<close>

text \<open>
  Claim C9. \<open>clear_pdf\<close> succeeds from every state, leaves the index empty and the flag
  false, and a second call returns the same response and the same state as the first.
\<close>

theorem clear_pdf_idempotent:
  "clear_pdf (g, w) = (Inr (Message ''PDF cleared successfully''), initial_globals, w) \<and>
   clear_pdf (snd (clear_pdf (g, w))) = clear_pdf (g, w)"
  by (simp add: clear_pdf_def initial_globals_def)

section \<open>Asking about a document\<close>

text \<open>
  Claim C3. When the flag is false or the index is empty, \<open>pdf_chat\<close> answers with the
  400 raised by its check; the globals and the world, with its list of calls, are unchanged.
\<close>

theorem pdf_chat_no_document:
  "\<not> pdf_loaded g \<or> vector_db_instance g = None \<Longrightarrow>
   pdf_chat env request (g, w) = (Inl (HTTPException 400 no_pdf_detail), g, w)"
  by (auto simp add: pdf_chat_def pdf_chat_try_def)

theorem pdf_chat_no_document_witness:
  "vector_db_instance (initial_globals :: Document list globals) = None \<and>
   pdf_chat example_env \<lparr>question = ''What is it about?''\<rparr> (initial_globals, example_world) =
     (Inl (HTTPException 400 no_pdf_detail), initial_globals, example_world)"
  using pdf_chat_no_document [of initial_globals example_env
          "\<lparr>question = ''What is it about?''\<rparr>" example_world]
  by (simp add: initial_globals_def)

lemma removeAll_commute: "removeAll a (removeAll b xs) = removeAll b (removeAll a xs)"
  by (induction xs) auto

lemma first_seen_removeAll: "removeAll s (first_seen ys) = first_seen (removeAll s ys)"
proof (induction ys)
  case Nil
  show ?case by simp
next
  case (Cons y ys)
  show ?case
  proof (cases "y = s")
    case True
    have "removeAll s (first_seen (y # ys)) = removeAll s (first_seen ys)"
      using True by simp
    also have "\<dots> = first_seen (removeAll s ys)"
      by (rule Cons)
    also have "\<dots> = first_seen (removeAll s (y # ys))"
      using True by simp
    finally show ?thesis .
  next
    case False
    have "removeAll s (first_seen (y # ys)) = y # removeAll s (removeAll y (first_seen ys))"
      using False by simp
    also have "\<dots> = y # removeAll y (removeAll s (first_seen ys))"
      by (simp add: removeAll_commute)
    also have "\<dots> = first_seen (removeAll s (y # ys))"
      using False Cons by simp
    finally show ?thesis .
  qed
qed

lemma set_first_seen: "set (first_seen xs) = set xs"
  by (induction xs) auto

lemma distinct_first_seen: "distinct (first_seen xs)"
  by (induction xs) (auto simp add: distinct_removeAll)

text \<open>The loop with any accumulator: what is already there stays in front.\<close>

lemma extract_sources_acc:
  "extract_sources docs srcs =
     srcs @ first_seen (filter (\<lambda>s. s \<notin> set srcs) (map source_of docs))"
proof (induction docs arbitrary: srcs)
  case Nil
  show ?case by simp
next
  case (Cons doc docs)
  show ?case
  proof (cases "source_of doc \<in> set srcs")
    case True
    then show ?thesis using Cons [of srcs] by simp
  next
    case False
    have "removeAll (source_of doc) (filter (\<lambda>s. s \<notin> set srcs) (map source_of docs)) =
          filter (\<lambda>s. s \<notin> set (srcs @ [source_of doc])) (map source_of docs)"
      by (simp add: removeAll_filter_not_eq conj_commute eq_commute)
    then show ?thesis
      using False Cons [of "srcs @ [source_of doc]"]
      by (simp add: Let_def first_seen_removeAll)
  qed
qed

lemma extract_sources_first_seen:
  "extract_sources docs [] = first_seen (map source_of docs)"
  by (simp add: extract_sources_acc)

lemma pdf_chat_success:
  assumes "pdf_chat env request (g, w) = (Inr b, g', w')"
  shows "\<exists>vdb res. vector_db_instance g = Some vdb \<and> pdf_loaded g \<and>
           RetrievalQA env vdb (question request) = Inr res \<and>
           b = Chat \<lparr>response = result res,
                     sources = Some (extract_sources (source_documents res) [])\<rparr> \<and>
           g' = g"
  using assms
  by (auto simp add: pdf_chat_def pdf_chat_try_def rag_query_def Let_def
           split: prod.splits sum.splits exn.splits if_splits option.splits)

text \<open>
  Claim C4. A successful \<open>pdf_chat\<close> returns the answer of the retrieval chain and, as
  sources, the sources of the retrieved chunks (\<open>Unknown\<close> for a chunk without one) with
  every identifier once, in the order of first mention.
\<close>

theorem pdf_chat_sources:
  assumes "pdf_chat env request (g, w) = (Inr b, g', w')"
  shows "\<exists>vdb res. vector_db_instance g = Some vdb \<and>
           RetrievalQA env vdb (question request) = Inr res \<and>
           b = Chat \<lparr>response = result res,
                     sources = Some (first_seen (map source_of (source_documents res)))\<rparr> \<and>
           distinct (first_seen (map source_of (source_documents res))) \<and>
           set (first_seen (map source_of (source_documents res))) =
             source_of ` set (source_documents res)"
  using pdf_chat_success [OF assms]
  by (auto simp add: extract_sources_first_seen distinct_first_seen set_first_seen)

theorem pdf_chat_sources_witness:
  "pdf_chat example_env \<lparr>question = ''What is it about?''\<rparr> (example_loaded, example_world) =
     (Inr (Chat \<lparr>response = ''answer'', sources = Some [''a.pdf'', ''Unknown'']\<rparr>),
      example_loaded,
      \<lparr>tmp_files = {}, calls = [Call_RetrievalQA example_index ''What is it about?'']\<rparr>) \<and>
   first_seen (map source_of (take 4 example_index)) = [''a.pdf'', ''Unknown''] \<and>
   distinct (first_seen (map source_of (take 4 example_index)))"
proof -
  have run: "pdf_chat example_env \<lparr>question = ''What is it about?''\<rparr> (example_loaded, example_world) =
        (Inr (Chat \<lparr>response = ''answer'', sources = Some [''a.pdf'', ''Unknown'']\<rparr>),
         example_loaded,
         \<lparr>tmp_files = {}, calls = [Call_RetrievalQA example_index ''What is it about?'']\<rparr>)"
    by (simp add: pdf_chat_def pdf_chat_try_def rag_query_def example_env_def example_loaded_def
          example_world_def example_index_def log_def source_of_def llm_model_def)
  from pdf_chat_sources [OF run] show ?thesis
    using run by (auto simp add: example_env_def example_loaded_def)
qed

section \<open>General chat\<close>

lemma convert_history_acc:
  "convert_history h acc = acc @ map (\<lambda>msg. [(''role'', role msg), (''content'', content msg)]) h"
  by (induction h arbitrary: acc) simp_all

lemma llm_answer_calls:
  "llm_answer env hist w = (r, w') \<Longrightarrow>
   calls w' = calls w @
     (if Groq env (GROQ_API_KEY env) = None
      then [Call_Groq_create (convert_history hist []) llm_model] else [])"
  by (auto simp add: llm_answer_def log_def Let_def split: option.splits sum.splits list.splits)

lemma llm_answer_result:
  "llm_answer env hist w = (Inr c, w') \<Longrightarrow>
   \<exists>cs. chat_completions_create env (convert_history hist []) llm_model = Inr (c # cs)"
  by (auto simp add: llm_answer_def log_def Let_def split: option.splits sum.splits list.splits)

text \<open>
  Claim C7. For a request with message \<open>m\<close> and history \<open>h\<close>, the list built for the
  completion call is \<open>h\<close> as dictionaries followed by the user message, of length
  \<open>|h| + 1\<close>; the request makes exactly that one call once the client exists, and no call
  otherwise; a successful response carries the text of the first choice and no sources.
\<close>

theorem general_chat_messages:
  assumes "general_chat env \<lparr>message = m, history = Some h\<rparr> (g, w) = (r, g', w')"
  shows "convert_history (h @ [\<lparr>role = ''user'', content = m\<rparr>]) [] =
           map (\<lambda>msg. [(''role'', role msg), (''content'', content msg)]) h @
             [[(''role'', ''user''), (''content'', m)]] \<and>
         length (convert_history (h @ [\<lparr>role = ''user'', content = m\<rparr>]) []) = length h + 1 \<and>
         calls w' = calls w @
           (if Groq env (GROQ_API_KEY env) = None
            then [Call_Groq_create (convert_history (h @ [\<lparr>role = ''user'', content = m\<rparr>]) [])
                    llm_model]
            else []) \<and>
         (\<forall>b. r = Inr b \<longrightarrow>
            (\<exists>c cs. chat_completions_create env
                       (convert_history (h @ [\<lparr>role = ''user'', content = m\<rparr>]) []) llm_model
                     = Inr (c # cs) \<and>
                    b = Chat \<lparr>response = c, sources = None\<rparr>))"
proof -
  let ?hist = "h @ [\<lparr>role = ''user'', content = m\<rparr>]"
  obtain a w1 where la: "llm_answer env ?hist w = (a, w1)"
    by (cases "llm_answer env ?hist w")
  have w': "w' = w1"
    using assms la
    by (auto simp add: general_chat_def general_chat_try_def Let_def split: sum.splits)
  have res: "\<forall>b. r = Inr b \<longrightarrow> (\<exists>c. a = Inr c \<and> b = Chat \<lparr>response = c, sources = None\<rparr>)"
    using assms la
    by (auto simp add: general_chat_def general_chat_try_def Let_def split: sum.splits)
  show ?thesis
    using llm_answer_calls [OF la] llm_answer_result [of env ?hist w _ w1] la res w'
    by (auto simp add: convert_history_acc)
qed

theorem general_chat_messages_witness:
  "general_chat example_env
     \<lparr>message = ''How are you?'', history = Some [\<lparr>role = ''user'', content = ''Hi''\<rparr>]\<rparr>
     (initial_globals, example_world) =
     (Inr (Chat \<lparr>response = ''Hello!'', sources = None\<rparr>), initial_globals,
      \<lparr>tmp_files = {},
       calls = [Call_Groq_create [[(''role'', ''user''), (''content'', ''Hi'')],
                                  [(''role'', ''user''), (''content'', ''How are you?'')]]
                  llm_model]\<rparr>) \<and>
   length (convert_history
     ([\<lparr>role = ''user'', content = ''Hi''\<rparr>] @ [\<lparr>role = ''user'', content = ''How are you?''\<rparr>]) [])
     = 2"
proof -
  have run: "general_chat example_env
     \<lparr>message = ''How are you?'', history = Some [\<lparr>role = ''user'', content = ''Hi''\<rparr>]\<rparr>
     (initial_globals, example_world) =
     (Inr (Chat \<lparr>response = ''Hello!'', sources = None\<rparr>), initial_globals,
      \<lparr>tmp_files = {},
       calls = [Call_Groq_create [[(''role'', ''user''), (''content'', ''Hi'')],
                                  [(''role'', ''user''), (''content'', ''How are you?'')]]
                  llm_model]\<rparr>)"
    by (simp add: general_chat_def general_chat_try_def llm_answer_def example_env_def
          example_world_def log_def Let_def)
  from general_chat_messages [OF run] show ?thesis
    using run by simp
qed

text \<open>
  Claim C8, as the code has it. \<open>ChatMessage.role\<close> is a plain string. Whatever the roles
  in the history, the handler never answers with a client error (its only errors are
  500s), and once the client exists the history goes to the completion call with every
  role as it came, followed by the role \<open>user\<close> of the new message.
\<close>

theorem general_chat_any_role:
  assumes "general_chat env \<lparr>message = m, history = Some h\<rparr> (g, w) = (r, g', w')"
  shows "(\<forall>e. r = Inl e \<longrightarrow> (\<exists>d. e = HTTPException 500 d)) \<and>
         (Groq env (GROQ_API_KEY env) = None \<longrightarrow>
            (\<exists>msgs. calls w' = calls w @ [Call_Groq_create msgs llm_model] \<and>
                    map (\<lambda>d. map_of d ''role'') msgs =
                      map (\<lambda>msg. Some (role msg)) h @ [Some ''user'']))"
proof -
  let ?hist = "h @ [\<lparr>role = ''user'', content = m\<rparr>]"
  obtain a w1 where la: "llm_answer env ?hist w = (a, w1)"
    by (cases "llm_answer env ?hist w")
  have w': "w' = w1"
    using assms la
    by (auto simp add: general_chat_def general_chat_try_def Let_def split: sum.splits)
  have err: "\<forall>e. r = Inl e \<longrightarrow> (\<exists>d. e = HTTPException 500 d)"
    using assms
    by (auto simp add: general_chat_def general_chat_try_def Let_def split: sum.splits prod.splits)
  have roles: "map (\<lambda>d. map_of d ''role'') (convert_history ?hist []) =
                 map (\<lambda>msg. Some (role msg)) h @ [Some ''user'']"
    by (simp add: convert_history_acc)
  show ?thesis
    using llm_answer_calls [OF la] err roles w' by auto
qed

theorem general_chat_any_role_witness:
  "general_chat example_env
     \<lparr>message = ''hello'', history = Some [\<lparr>role = ''tool'', content = ''42''\<rparr>]\<rparr>
     (example_loaded, example_world) =
     (Inr (Chat \<lparr>response = ''Hello!'', sources = None\<rparr>), example_loaded,
      \<lparr>tmp_files = {},
       calls = [Call_Groq_create [[(''role'', ''tool''), (''content'', ''42'')],
                                  [(''role'', ''user''), (''content'', ''hello'')]]
                  llm_model]\<rparr>) \<and>
   Groq example_env (GROQ_API_KEY example_env) = None"
proof -
  have run: "general_chat example_env
     \<lparr>message = ''hello'', history = Some [\<lparr>role = ''tool'', content = ''42''\<rparr>]\<rparr>
     (example_loaded, example_world) =
     (Inr (Chat \<lparr>response = ''Hello!'', sources = None\<rparr>), example_loaded,
      \<lparr>tmp_files = {},
       calls = [Call_Groq_create [[(''role'', ''tool''), (''content'', ''42'')],
                                  [(''role'', ''user''), (''content'', ''hello'')]]
                  llm_model]\<rparr>)"
    by (simp add: general_chat_def general_chat_try_def llm_answer_def example_env_def
          example_world_def log_def Let_def)
  from general_chat_any_role [OF run] show ?thesis
    using run by (simp add: example_env_def)
qed

text \<open>
  Claim C8, as stated, fails: a history with the role \<open>system\<close> is not rejected. The
  request succeeds and the completion call carries the role \<open>system\<close>.
\<close>

theorem general_chat_system_role_counterexample:
  "fst (general_chat example_env
          \<lparr>message = ''hi'', history = Some [\<lparr>role = ''system'', content = ''x''\<rparr>]\<rparr>
          (initial_globals, example_world)) =
     Inr (Chat \<lparr>response = ''Hello!'', sources = None\<rparr>) \<and>
   calls (snd (snd (general_chat example_env
          \<lparr>message = ''hi'', history = Some [\<lparr>role = ''system'', content = ''x''\<rparr>]\<rparr>
          (initial_globals, example_world)))) =
     [Call_Groq_create [[(''role'', ''system''), (''content'', ''x'')],
                        [(''role'', ''user''), (''content'', ''hi'')]] llm_model]"
  by (simp add: general_chat_def general_chat_try_def llm_answer_def example_env_def
        example_world_def log_def Let_def)

section \<open>Which routes change the globals\<close>

text \<open>
  Claim C10. Every request other than an upload and a \<open>DELETE /pdf\<close> (the three GET
  routes and the two chat routes), whatever its outcome, leaves both globals as they were.
\<close>

theorem read_endpoints_frame:
  "(\<forall>f. req \<noteq> POST_upload_pdf f) \<Longrightarrow> req \<noteq> DELETE_pdf \<Longrightarrow>
   fst (snd (handle env req (g, w))) = g"
  by (cases req)
     (auto simp add: root_def get_status_def health_check_def general_chat_def pdf_chat_def
           split: prod.splits sum.splits exn.splits)

theorem read_endpoints_frame_witness:
  "fst (snd (handle example_env (POST_chat_pdf \<lparr>question = ''What is it about?''\<rparr>)
               (example_loaded, example_world))) = example_loaded \<and>
   fst (handle example_env (POST_chat_pdf \<lparr>question = ''What is it about?''\<rparr>)
               (example_loaded, example_world)) =
     Inr (Chat \<lparr>response = ''answer'', sources = Some [''a.pdf'', ''Unknown'']\<rparr>)"
  using read_endpoints_frame [of "POST_chat_pdf \<lparr>question = ''What is it about?''\<rparr>"
          example_env example_loaded example_world]
  by (simp add: pdf_chat_def pdf_chat_try_def rag_query_def example_env_def example_loaded_def
        example_world_def example_index_def log_def source_of_def)

section \<open>The upload pipeline\<close>

lemmas pipeline_defs = upload_pdf_try_def pdf_loader_def split_document_def create_vector_db_def
  log_def Let_def

lemma upload_pdf_try_success:
  assumes "upload_pdf_try env f (g, w) = (Inr b, g', w')"
  shows "\<exists>p docs chunks v.
           endswith (filename f) ''.pdf'' \<and>
           NamedTemporaryFile env (tmp_files w) = Inr p \<and>
           copyfileobj env (file_obj f) p = None \<and>
           PyPDFLoader_load env p = Inr docs \<and>
           split_documents env 500 30 docs = Inr chunks \<and>
           HuggingFaceEmbeddings env embedding_model_name = None \<and>
           FAISS_from_documents env chunks embedding_model_name = Inr v \<and>
           os_unlink env p = None \<and>
           g' = g\<lparr>vector_db_instance := Some v, pdf_loaded := True\<rparr> \<and>
           tmp_files w' = insert p (tmp_files w) - {p}"
  using assms
  by (auto simp add: pipeline_defs split: if_splits sum.splits option.splits)

lemma upload_pdf_try_failure:
  assumes "upload_pdf_try env f (g, w) = (Inl e, g', w')"
  shows "(g' = g \<and>
          (\<forall>p. NamedTemporaryFile env (tmp_files w) = Inr p \<longrightarrow> endswith (filename f) ''.pdf'' \<longrightarrow>
             tmp_files w' = insert p (tmp_files w) \<and>
             \<not> (copyfileobj env (file_obj f) p = None \<and>
                (\<exists>docs chunks v.
                   PyPDFLoader_load env p = Inr docs \<and>
                   split_documents env 500 30 docs = Inr chunks \<and>
                   HuggingFaceEmbeddings env embedding_model_name = None \<and>
                   FAISS_from_documents env chunks embedding_model_name = Inr v))) \<and>
          (\<not> endswith (filename f) ''.pdf'' \<longrightarrow> w' = w)) \<or>
         (\<exists>p docs chunks v m.
           endswith (filename f) ''.pdf'' \<and>
           NamedTemporaryFile env (tmp_files w) = Inr p \<and>
           copyfileobj env (file_obj f) p = None \<and>
           PyPDFLoader_load env p = Inr docs \<and>
           split_documents env 500 30 docs = Inr chunks \<and>
           HuggingFaceEmbeddings env embedding_model_name = None \<and>
           FAISS_from_documents env chunks embedding_model_name = Inr v \<and>
           os_unlink env p = Some m \<and>
           g' = g\<lparr>vector_db_instance := Some v, pdf_loaded := True\<rparr> \<and>
           tmp_files w' = insert p (tmp_files w))"
  using assms
  by (auto simp add: pipeline_defs split: if_splits sum.splits option.splits)

lemma upload_pdf_result:
  "upload_pdf env f gw = (r, gw') \<Longrightarrow>
   \<exists>r0. upload_pdf_try env f gw = (r0, gw') \<and> isl r0 = isl r \<and>
     (\<forall>b. r = Inr b \<longrightarrow> r0 = Inr b)"
  by (auto simp add: upload_pdf_def split: prod.splits sum.splits)

text \<open>
  Claim C6, as the code has it. In an upload that gets as far as creating its temporary
  file \<open>p\<close>, the file is gone afterwards exactly when the upload returns success, and
  success means that the copy, the loader, the splitter, the embedding model, the index
  build and the unlink itself all succeeded. After every failure the file is still there.
\<close>

theorem upload_pdf_tmp_file:
  assumes "upload_pdf env f (g, w) = (r, g', w')"
      and "endswith (filename f) ''.pdf''"
      and "NamedTemporaryFile env (tmp_files w) = Inr p"
  shows "(p \<notin> tmp_files w') = (\<not> isl r) \<and>
         tmp_files w' = (if isl r then insert p (tmp_files w) else tmp_files w - {p}) \<and>
         (\<not> isl r) =
           (copyfileobj env (file_obj f) p = None \<and>
            (\<exists>docs chunks v.
               PyPDFLoader_load env p = Inr docs \<and>
               split_documents env 500 30 docs = Inr chunks \<and>
               HuggingFaceEmbeddings env embedding_model_name = None \<and>
               FAISS_from_documents env chunks embedding_model_name = Inr v) \<and>
            os_unlink env p = None)"
proof -
  obtain r0 where tr: "upload_pdf_try env f (g, w) = (r0, g', w')" and isl: "isl r0 = isl r"
    using upload_pdf_result [OF assms(1)] by blast
  show ?thesis
  proof (cases r0)
    case (Inl e)
    from upload_pdf_try_failure [OF tr [unfolded Inl]] assms(2,3) Inl isl
    show ?thesis by auto
  next
    case (Inr b)
    from upload_pdf_try_success [OF tr [unfolded Inr]] assms(2,3) Inr isl
    show ?thesis by auto
  qed
qed

theorem upload_pdf_tmp_file_witness:
  "upload_pdf example_env example_file (initial_globals, example_world) =
     (Inr (Message (''PDF '' @ CHR 0x27 # ''b.pdf'' @ CHR 0x27 #
             '' uploaded and processed successfully'')),
      \<lparr>vector_db_instance =
         Some [\<lparr>page_content = ''page one'', metadata = [(''source'', ''/tmp/tmp1.pdf'')]\<rparr>],
       pdf_loaded = True\<rparr>,
      \<lparr>tmp_files = {},
       calls = [Call_NamedTemporaryFile, Call_copyfileobj ''%PDF-1.4'' ''/tmp/tmp1.pdf'',
                Call_PyPDFLoader_load ''/tmp/tmp1.pdf'',
                Call_split_documents
                  [\<lparr>page_content = ''page one'', metadata = [(''source'', ''/tmp/tmp1.pdf'')]\<rparr>],
                Call_HuggingFaceEmbeddings embedding_model_name,
                Call_FAISS_from_documents
                  [\<lparr>page_content = ''page one'', metadata = [(''source'', ''/tmp/tmp1.pdf'')]\<rparr>],
                Call_os_unlink ''/tmp/tmp1.pdf'']\<rparr>) \<and>
   endswith (filename example_file) ''.pdf'' \<and>
   NamedTemporaryFile example_env (tmp_files example_world) = Inr ''/tmp/tmp1.pdf'' \<and>
   ''/tmp/tmp1.pdf'' \<notin> tmp_files (snd (snd (upload_pdf example_env example_file
                                          (initial_globals, example_world))))"
proof -
  have run: "upload_pdf example_env example_file (initial_globals, example_world) =
     (Inr (Message (''PDF '' @ CHR 0x27 # ''b.pdf'' @ CHR 0x27 #
             '' uploaded and processed successfully'')),
      \<lparr>vector_db_instance =
         Some [\<lparr>page_content = ''page one'', metadata = [(''source'', ''/tmp/tmp1.pdf'')]\<rparr>],
       pdf_loaded = True\<rparr>,
      \<lparr>tmp_files = {},
       calls = [Call_NamedTemporaryFile, Call_copyfileobj ''%PDF-1.4'' ''/tmp/tmp1.pdf'',
                Call_PyPDFLoader_load ''/tmp/tmp1.pdf'',
                Call_split_documents
                  [\<lparr>page_content = ''page one'', metadata = [(''source'', ''/tmp/tmp1.pdf'')]\<rparr>],
                Call_HuggingFaceEmbeddings embedding_model_name,
                Call_FAISS_from_documents
                  [\<lparr>page_content = ''page one'', metadata = [(''source'', ''/tmp/tmp1.pdf'')]\<rparr>],
                Call_os_unlink ''/tmp/tmp1.pdf'']\<rparr>)"
    by (simp add: upload_pdf_def pipeline_defs example_env_def example_file_def
          example_world_def endswith_def initial_globals_def)
  have ext: "endswith (filename example_file) ''.pdf''"
    by (simp add: example_file_def endswith_def)
  have tmp: "NamedTemporaryFile example_env (tmp_files example_world) = Inr ''/tmp/tmp1.pdf''"
    by (simp add: example_env_def)
  from upload_pdf_tmp_file [OF run ext tmp] show ?thesis
    using run ext tmp by simp
qed

text \<open>
  Claim C6, as stated, fails: the ingest pipeline can complete while the file stays. With
  a failing \<open>os.unlink\<close> the loader, the splitter, the embedding model and the index build
  all succeed and the new index is in the globals, yet the temporary file is still there.
\<close>

theorem upload_tmp_file_kept_counterexample:
  "PyPDFLoader_load unlink_fails_env ''/tmp/tmp1.pdf'' =
     Inr [\<lparr>page_content = ''page one'', metadata = [(''source'', ''/tmp/tmp1.pdf'')]\<rparr>] \<and>
   split_documents unlink_fails_env 500 30
       [\<lparr>page_content = ''page one'', metadata = [(''source'', ''/tmp/tmp1.pdf'')]\<rparr>] =
     Inr [\<lparr>page_content = ''page one'', metadata = [(''source'', ''/tmp/tmp1.pdf'')]\<rparr>] \<and>
   HuggingFaceEmbeddings unlink_fails_env embedding_model_name = None \<and>
   FAISS_from_documents unlink_fails_env
       [\<lparr>page_content = ''page one'', metadata = [(''source'', ''/tmp/tmp1.pdf'')]\<rparr>]
       embedding_model_name =
     Inr [\<lparr>page_content = ''page one'', metadata = [(''source'', ''/tmp/tmp1.pdf'')]\<rparr>] \<and>
   vector_db_instance
       (fst (snd (upload_pdf unlink_fails_env example_file (initial_globals, example_world)))) =
     Some [\<lparr>page_content = ''page one'', metadata = [(''source'', ''/tmp/tmp1.pdf'')]\<rparr>] \<and>
   NamedTemporaryFile unlink_fails_env (tmp_files example_world) = Inr ''/tmp/tmp1.pdf'' \<and>
   ''/tmp/tmp1.pdf'' \<in>
     tmp_files (snd (snd (upload_pdf unlink_fails_env example_file
                            (initial_globals, example_world))))"
  by (simp add: upload_pdf_def pipeline_defs unlink_fails_env_def example_env_def
        example_file_def example_world_def endswith_def initial_globals_def)







section \<open>Replacing the index\<close>










end
